theory Spec2Isabelle
  imports Complex_Main "HOL-Library.AList"
begin

section \<open>Matrix knowledge modules: packager and loader\<close>

text \<open>
  A shallow embedding of \<^verbatim>\<open>src/packager/create_module.py\<close> (class
  \<^verbatim>\<open>KnowledgePackager\<close>) and \<^verbatim>\<open>src/loader/download.py\<close> (class
  \<^verbatim>\<open>MatrixKnowledgeLoader\<close>). Python methods keep their names without the leading
  underscore. Coroutines are run to completion one after the other; \<^verbatim>\<open>asyncio.sleep\<close>
  has no effect on the state modelled here.
\<close>

subsection \<open>Python values and exceptions\<close>

text \<open>
  The values that \<^verbatim>\<open>json.load\<close> returns, which are also the values the packager
  pickles. A dict is the list of its items in insertion order.
\<close>

datatype pyval =
    PNone
  | PBool bool
  | PInt int
  | PFloat real
  | PStr string
  | PList "pyval list"
  | PDict "(string \<times> pyval) list"

datatype error =
    KeyError
  | TypeError
  | FileNotFoundError
  | FileExistsError
  | IsADirectoryError
  | NotADirectoryError
  | PermissionError
  | ReadError
  | JSONDecodeError
  | UnpicklingError

text \<open>\<^verbatim>\<open>v[key]\<close> for a string key: only a dict can be subscripted by a string.\<close>

fun py_getitem :: "pyval \<Rightarrow> string \<Rightarrow> error + pyval" where
  "py_getitem (PDict kvs) key =
     (case map_of kvs key of None \<Rightarrow> Inl KeyError | Some v \<Rightarrow> Inr v)"
| "py_getitem _ key = Inl TypeError"

text \<open>\<^verbatim>\<open>for x in v\<close>: a list gives its elements, a dict its keys, a string its characters.\<close>

fun py_iter :: "pyval \<Rightarrow> error + pyval list" where
  "py_iter (PList xs) = Inr xs"
| "py_iter (PDict kvs) = Inr (map (\<lambda>kv. PStr (fst kv)) kvs)"
| "py_iter (PStr s) = Inr (map (\<lambda>c. PStr [c]) s)"
| "py_iter _ = Inl TypeError"

text \<open>\<^verbatim>\<open>len(v)\<close>.\<close>

fun py_len :: "pyval \<Rightarrow> error + nat" where
  "py_len (PList xs) = Inr (length xs)"
| "py_len (PDict kvs) = Inr (length kvs)"
| "py_len (PStr s) = Inr (length s)"
| "py_len _ = Inl TypeError"

fun join :: "string \<Rightarrow> string list \<Rightarrow> string" where
  "join sep [] = []"
| "join sep [x] = x"
| "join sep (x # y # ys) = x @ sep @ join sep (y # ys)"

fun str_items :: "pyval list \<Rightarrow> error + string list" where
  "str_items [] = Inr []"
| "str_items (PStr s # vs) =
     (case str_items vs of Inl e \<Rightarrow> Inl e | Inr ss \<Rightarrow> Inr (s # ss))"
| "str_items (_ # vs) = Inl TypeError"

text \<open>\<^verbatim>\<open>sep.join(v)\<close>: \<open>v\<close> must be iterable and every item a string.\<close>

definition py_join :: "string \<Rightarrow> pyval \<Rightarrow> error + string" where
  "py_join sep v =
     (case py_iter v of
        Inl e \<Rightarrow> Inl e
      | Inr items \<Rightarrow>
          (case str_items items of Inl e \<Rightarrow> Inl e | Inr ss \<Rightarrow> Inr (join sep ss)))"

text \<open>
  \<^verbatim>\<open>str.lower\<close> and \<^verbatim>\<open>str.replace(' ', '_')\<close>. Strings are ASCII: a character
  outside \<open>A\<close>--\<open>Z\<close> is its own lower case.
\<close>

definition lower_char :: "char \<Rightarrow> char" where
  "lower_char c =
     (case map_of (zip ''ABCDEFGHIJKLMNOPQRSTUVWXYZ'' ''abcdefghijklmnopqrstuvwxyz'') c of
        None \<Rightarrow> c
      | Some d \<Rightarrow> d)"

definition lower :: "string \<Rightarrow> string" where
  "lower s = map lower_char s"

definition replace_space :: "string \<Rightarrow> string" where
  "replace_space s = map (\<lambda>c. if c = CHR '' '' then CHR ''_'' else c) s"

subsection \<open>Entities and the embeddings payload\<close>

text \<open>
  An entity is a dict in which each of the keys \<^verbatim>\<open>name\<close>, \<^verbatim>\<open>entityType\<close> and
  \<^verbatim>\<open>observations\<close> may be missing (\<open>None\<close>); a key that is present holds a string,
  respectively a list of strings.
\<close>

record entity =
  name :: "string option"
  entityType :: "string option"
  observations :: "string list option"

text \<open>\<^verbatim>\<open>d.get(key, default)\<close> on a field of an entity.\<close>

definition get_or :: "'a option \<Rightarrow> 'a \<Rightarrow> 'a" where
  "get_or field dflt = (case field of None \<Rightarrow> dflt | Some v \<Rightarrow> v)"

text \<open>The dicts appended to \<^verbatim>\<open>chunks\<close> and \<^verbatim>\<open>metadata\<close>, one field per key.\<close>

record chunk =
  c_id :: int
  c_text :: string
  c_entity :: string
  c_type :: string

record chunk_meta =
  chunk_id :: int
  entity_name :: string
  entity_type :: string
  char_count :: int

record embeddings =
  chunks :: "chunk list"
  metadata :: "chunk_meta list"
  entity_map :: "(string \<times> string) list"

text \<open>
  The inner loop of \<^verbatim>\<open>_create_embeddings_data\<close> over the observations of one entity;
  the counter \<^verbatim>\<open>chunk_id\<close> is carried beside the payload.
\<close>

fun observations_loop ::
  "string \<Rightarrow> string \<Rightarrow> string list \<Rightarrow> embeddings \<times> int \<Rightarrow> embeddings \<times> int" where
  "observations_loop en et [] (d, k) = (d, k)"
| "observations_loop en et (obs # rest) (d, k) =
     observations_loop en et rest
       (d\<lparr>chunks := chunks d @ [\<lparr>c_id = k, c_text = obs, c_entity = en, c_type = et\<rparr>],
          metadata := metadata d @
            [\<lparr>chunk_id = k, entity_name = en, entity_type = et,
              char_count = int (length obs)\<rparr>]\<rparr>,
        k + 1)"

fun entities_loop :: "entity list \<Rightarrow> embeddings \<times> int \<Rightarrow> embeddings \<times> int" where
  "entities_loop [] (d, k) = (d, k)"
| "entities_loop (e # es) (d, k) =
     (let en = get_or (name e) ''unknown'';
          et = get_or (entityType e) ''unknown'';
          (d1, k1) = observations_loop en et (get_or (observations e) []) (d, k)
      in entities_loop es (d1\<lparr>entity_map := AList.update en et (entity_map d1)\<rparr>, k1))"

definition create_embeddings_data :: "entity list \<Rightarrow> embeddings" where
  "create_embeddings_data entities =
     fst (entities_loop entities (\<lparr>chunks = [], metadata = [], entity_map = []\<rparr>, 0))"

text \<open>
  \<^verbatim>\<open>_extract_skills\<close>. The Python set \<^verbatim>\<open>skills\<close> is a list without duplicates
  (\<^verbatim>\<open>skills.add\<close> is \<^const>\<open>List.insert\<close>); \<^verbatim>\<open>list(skills)\<close> returns its elements
  in an order Python does not fix, here the order of the representing list.
\<close>

fun extract_skills_loop :: "entity list \<Rightarrow> string list \<Rightarrow> string list" where
  "extract_skills_loop [] skills = skills"
| "extract_skills_loop (e # es) skills =
     (let entity_type = get_or (entityType e) '''';
          nm = get_or (name e) ''''
      in extract_skills_loop es
           (if entity_type = ''Active_Project''
              then List.insert (''project_'' @ replace_space (lower nm)) skills
            else if entity_type = ''Tool_Reference''
              then List.insert (''tool_'' @ lower nm) skills
            else if entity_type = ''System_Protocol''
              then List.insert (''protocol_'' @ replace_space (lower nm)) skills
            else skills))"

definition extract_skills :: "entity list \<Rightarrow> string list" where
  "extract_skills entities = extract_skills_loop entities []"

text \<open>\<^verbatim>\<open>sum(len(e.get("observations", [])) for e in entities)\<close>, as in the sources manifest.\<close>

definition total_observations :: "entity list \<Rightarrow> nat" where
  "total_observations entities = (\<Sum>e\<leftarrow>entities. length (get_or (observations e) []))"

subsection \<open>Files, directories and the process state\<close>

text \<open>
  What a file holds, seen through the three readers the code uses: \<open>Json v\<close> is text that
  \<^verbatim>\<open>json.load\<close> parses to \<open>v\<close>, \<open>Pickle v\<close> is what \<^verbatim>\<open>pickle.dump\<close> writes for
  \<open>v\<close>, \<open>TarGz ms\<close> is a finished gzip tar archive with the members \<open>ms\<close>, and
  \<open>TarGzOpen ms\<close> is an archive whose writer was abandoned after the members \<open>ms\<close>,
  before the end-of-archive blocks. \<open>Bytes\<close> is data in none of these formats.
\<close>

datatype content =
    Bytes string
  | Json pyval
  | Pickle pyval
  | TarGz "(string \<times> content) list"
  | TarGzOpen "(string \<times> content) list"

text \<open>A file is its read permission and its content.\<close>

type_synonym regular_file = "bool \<times> content"

text \<open>
  The working directory maps a name to a file or to a directory of files. All paths of
  the code are names in the working directory or \<open>directory / name\<close>.
\<close>

datatype node = File regular_file | Dir "(string \<times> regular_file) list"

text \<open>One constructor for each \<^verbatim>\<open>print\<close> of the two classes, with the values it formats.\<close>

datatype msg =
    Searching string
  | NotFoundLocally string
  | RegistryHint
  | DownloadingFrom string
  | VerifyingIntegrity
  | ModuleHash string
  | VerificationFailed
  | DownloadingKnowledge
  | InstallingModule pyval
  | Description pyval
  | SkillsProvided string
  | LoadingEmbeddings
  | LoadedChunks nat
  | RegisteringMetadata
  | IntegrityVerified
  | InstallationError error
  | IKnow string
  | FailedToInstall string
  | CreatingModule string
  | ProcessingEntities
  | PackagingModule
  | ModuleCreated string string

record module_record =
  path :: string
  installed_at :: real

record state =
  cwd :: "(string \<times> node) list"
  stdout :: "msg list"
  installed_modules :: "(string \<times> module_record) list"

text \<open>
  What the code takes from outside: \<^verbatim>\<open>hashlib.sha256(...).hexdigest()\<close> of a file's
  content, the two readings of \<^verbatim>\<open>datetime.now().isoformat()\<close>, the float that
  \<^verbatim>\<open>_estimate_size\<close> computes, and the event loop's clock.
\<close>

record platform =
  sha256 :: "content \<Rightarrow> string"
  created_now :: string
  export_now :: string
  estimate_size :: "entity list \<Rightarrow> real"
  loop_time :: real

definition print :: "msg \<Rightarrow> state \<Rightarrow> state" where
  "print m s = s\<lparr>stdout := stdout s @ [m]\<rparr>"

text \<open>\<^verbatim>\<open>open(path, "rb")\<close> and reading the file to its end.\<close>

definition open_rb :: "string \<Rightarrow> state \<Rightarrow> error + content" where
  "open_rb p s =
     (case map_of (cwd s) p of
        None \<Rightarrow> Inl FileNotFoundError
      | Some (Dir es) \<Rightarrow> Inl IsADirectoryError
      | Some (File (r, c)) \<Rightarrow> if r then Inr c else Inl PermissionError)"

text \<open>\<^verbatim>\<open>open(directory / fname)\<close> for reading.\<close>

definition read_entry :: "string \<Rightarrow> string \<Rightarrow> state \<Rightarrow> error + content" where
  "read_entry d fname s =
     (case map_of (cwd s) d of
        None \<Rightarrow> Inl FileNotFoundError
      | Some (File f) \<Rightarrow> Inl NotADirectoryError
      | Some (Dir es) \<Rightarrow>
          (case map_of es fname of
             None \<Rightarrow> Inl FileNotFoundError
           | Some (r, c) \<Rightarrow> if r then Inr c else Inl PermissionError))"

text \<open>\<^verbatim>\<open>Path.mkdir(exist_ok=True)\<close>: an existing directory is kept, an existing file raises.\<close>

definition mkdir_exist_ok :: "string \<Rightarrow> state \<Rightarrow> (error + unit) \<times> state" where
  "mkdir_exist_ok d s =
     (case map_of (cwd s) d of
        None \<Rightarrow> (Inr (), s\<lparr>cwd := AList.update d (Dir []) (cwd s)\<rparr>)
      | Some (Dir es) \<Rightarrow> (Inr (), s)
      | Some (File f) \<Rightarrow> (Inl FileExistsError, s))"

text \<open>\<^verbatim>\<open>shutil.rmtree\<close>.\<close>

definition rmtree :: "string \<Rightarrow> state \<Rightarrow> (error + unit) \<times> state" where
  "rmtree d s =
     (case map_of (cwd s) d of
        None \<Rightarrow> (Inl FileNotFoundError, s)
      | Some (File f) \<Rightarrow> (Inl NotADirectoryError, s)
      | Some (Dir es) \<Rightarrow> (Inr (), s\<lparr>cwd := AList.delete d (cwd s)\<rparr>))"

definition json_load :: "content \<Rightarrow> error + pyval" where
  "json_load c = (case c of Json v \<Rightarrow> Inr v | _ \<Rightarrow> Inl JSONDecodeError)"

definition pickle_load :: "content \<Rightarrow> error + pyval" where
  "pickle_load c = (case c of Pickle v \<Rightarrow> Inr v | _ \<Rightarrow> Inl UnpicklingError)"

text \<open>
  The members \<^verbatim>\<open>tarfile.open(path, "r:gz")\<close> finds. An abandoned archive reads as its
  members when it has one, and as an empty file (\<open>ReadError\<close>) when it has none.
\<close>

fun tar_members :: "content \<Rightarrow> error + (string \<times> content) list" where
  "tar_members (TarGz ms) = Inr ms"
| "tar_members (TarGzOpen []) = Inl ReadError"
| "tar_members (TarGzOpen (m # ms)) = Inr (m # ms)"
| "tar_members _ = Inl ReadError"

text \<open>\<^verbatim>\<open>tar.extractall\<close>: each member becomes a readable file, a later member of the same
  name replacing an earlier one.\<close>

fun extractall ::
  "(string \<times> content) list \<Rightarrow> (string \<times> regular_file) list \<Rightarrow> (string \<times> regular_file) list" where
  "extractall [] es = es"
| "extractall ((n, c) # ms) es = extractall ms (AList.update n (True, c) es)"

subsection \<open>The loader\<close>

definition calculate_hash :: "platform \<Rightarrow> string \<Rightarrow> state \<Rightarrow> error + string" where
  "calculate_hash env file_path s =
     (case open_rb file_path s of Inl e \<Rightarrow> Inl e | Inr c \<Rightarrow> Inr (sha256 env c))"

definition verify_module :: "platform \<Rightarrow> string \<Rightarrow> state \<Rightarrow> (error + bool) \<times> state" where
  "verify_module env module_path s =
     (case calculate_hash env module_path s of
        Inl e \<Rightarrow> (Inl e, s)
      | Inr actual_hash \<Rightarrow> (Inr True, print (ModuleHash (take 16 actual_hash)) s))"

definition download_from_url :: "string \<Rightarrow> string \<Rightarrow> state \<Rightarrow> string \<times> state" where
  "download_from_url url skill_name s = (skill_name @ ''.mkm'', print (DownloadingFrom url) s)"

text \<open>\<^verbatim>\<open>extract_dir / step["file"]\<close>: the operand must be a string.\<close>

fun path_join :: "pyval \<Rightarrow> error + string" where
  "path_join (PStr fname) = Inr fname"
| "path_join _ = Inl TypeError"

text \<open>The \<^verbatim>\<open>load_embeddings\<close> branch after its first print: the number of chunks read.\<close>

definition load_embeddings :: "pyval \<Rightarrow> string \<Rightarrow> state \<Rightarrow> error + nat" where
  "load_embeddings step extract_dir s =
     (case py_getitem step ''file'' of Inl e \<Rightarrow> Inl e | Inr f \<Rightarrow>
      case path_join f of Inl e \<Rightarrow> Inl e | Inr fname \<Rightarrow>
      case read_entry extract_dir fname s of Inl e \<Rightarrow> Inl e | Inr c \<Rightarrow>
      case pickle_load c of Inl e \<Rightarrow> Inl e | Inr embeddings_data \<Rightarrow>
      case py_getitem embeddings_data ''chunks'' of Inl e \<Rightarrow> Inl e | Inr ch \<Rightarrow>
      py_len ch)"

definition execute_install_step :: "pyval \<Rightarrow> string \<Rightarrow> state \<Rightarrow> (error + unit) \<times> state" where
  "execute_install_step step extract_dir s =
     (case py_getitem step ''action'' of
        Inl e \<Rightarrow> (Inl e, s)
      | Inr action \<Rightarrow>
          if action = PStr ''load_embeddings'' then
            (case load_embeddings step extract_dir s of
               Inl e \<Rightarrow> (Inl e, print LoadingEmbeddings s)
             | Inr n \<Rightarrow> (Inr (), print (LoadedChunks n) (print LoadingEmbeddings s)))
          else if action = PStr ''register_metadata'' then
            (Inr (), print RegisteringMetadata s)
          else if action = PStr ''verify_integrity'' then
            (Inr (), print IntegrityVerified s)
          else (Inr (), s))"

text \<open>The loop \<^verbatim>\<open>for step in manifest["install_steps"]\<close>; an exception leaves it.\<close>

fun install_steps :: "pyval list \<Rightarrow> string \<Rightarrow> state \<Rightarrow> (error + unit) \<times> state" where
  "install_steps [] extract_dir s = (Inr (), s)"
| "install_steps (step # rest) extract_dir s =
     (case execute_install_step step extract_dir s of
        (Inl e, s1) \<Rightarrow> (Inl e, s1)
      | (Inr u, s1) \<Rightarrow> install_steps rest extract_dir s1)"

definition extract_module :: "string \<Rightarrow> string \<Rightarrow> state \<Rightarrow> (error + unit) \<times> state" where
  "extract_module module_path extract_dir s =
     (case open_rb module_path s of Inl e \<Rightarrow> (Inl e, s) | Inr c \<Rightarrow>
      case tar_members c of Inl e \<Rightarrow> (Inl e, s) | Inr ms \<Rightarrow>
      case map_of (cwd s) extract_dir of
        Some (Dir es) \<Rightarrow>
          (Inr (), s\<lparr>cwd := AList.update extract_dir (Dir (extractall ms es)) (cwd s)\<rparr>)
      | Some (File f) \<Rightarrow> (Inl NotADirectoryError, s)
      | None \<Rightarrow> (Inl FileNotFoundError, s))"

definition load_json :: "string \<Rightarrow> string \<Rightarrow> state \<Rightarrow> error + pyval" where
  "load_json d fname s =
     (case read_entry d fname s of Inl e \<Rightarrow> Inl e | Inr c \<Rightarrow> json_load c)"

text \<open>The three prints of the metadata; each subscript and the join may raise.\<close>

definition print_metadata :: "pyval \<Rightarrow> state \<Rightarrow> (error + unit) \<times> state" where
  "print_metadata md s =
     (case py_getitem md ''name'' of Inl e \<Rightarrow> (Inl e, s) | Inr n \<Rightarrow>
      case py_getitem md ''description'' of
        Inl e \<Rightarrow> (Inl e, print (InstallingModule n) s)
      | Inr dsc \<Rightarrow>
      case py_getitem md ''skills_provided'' of
        Inl e \<Rightarrow> (Inl e, print (Description dsc) (print (InstallingModule n) s))
      | Inr sk \<Rightarrow>
      case py_join '', '' sk of
        Inl e \<Rightarrow> (Inl e, print (Description dsc) (print (InstallingModule n) s))
      | Inr joined \<Rightarrow>
          (Inr (), print (SkillsProvided joined)
                     (print (Description dsc) (print (InstallingModule n) s))))"

text \<open>
  The \<^verbatim>\<open>try\<close> of \<^verbatim>\<open>_install_module\<close> up to the loop: extraction, the two
  documents, the prints, and the steps that \<^verbatim>\<open>for step in manifest["install_steps"]\<close>
  will visit.
\<close>

definition unpack_module :: "string \<Rightarrow> string \<Rightarrow> state \<Rightarrow> (error + pyval list) \<times> state" where
  "unpack_module module_path extract_dir s =
     (case extract_module module_path extract_dir s of
        (Inl e, s1) \<Rightarrow> (Inl e, s1)
      | (Inr u, s1) \<Rightarrow>
      case load_json extract_dir ''manifest.json'' s1 of Inl e \<Rightarrow> (Inl e, s1) | Inr manifest \<Rightarrow>
      case load_json extract_dir ''metadata.json'' s1 of Inl e \<Rightarrow> (Inl e, s1) | Inr md \<Rightarrow>
      case print_metadata md s1 of
        (Inl e, s2) \<Rightarrow> (Inl e, s2)
      | (Inr u, s2) \<Rightarrow>
      case py_getitem manifest ''install_steps'' of Inl e \<Rightarrow> (Inl e, s2) | Inr v \<Rightarrow>
      case py_iter v of Inl e \<Rightarrow> (Inl e, s2) | Inr steps \<Rightarrow> (Inr steps, s2))"

text \<open>The whole body of the \<^verbatim>\<open>try\<close>: the loop, then the cleanup.\<close>

definition install_module_try :: "string \<Rightarrow> string \<Rightarrow> state \<Rightarrow> (error + unit) \<times> state" where
  "install_module_try module_path extract_dir s =
     (case unpack_module module_path extract_dir s of
        (Inl e, s2) \<Rightarrow> (Inl e, s2)
      | (Inr steps, s2) \<Rightarrow>
      case install_steps steps extract_dir s2 of
        (Inl e, s3) \<Rightarrow> (Inl e, s3)
      | (Inr u, s3) \<Rightarrow> rmtree extract_dir s3)"

text \<open>
  \<^verbatim>\<open>_install_module\<close>: the directory is made before the \<^verbatim>\<open>try\<close>; the handler
  \<^verbatim>\<open>except Exception\<close> prints the error and returns \<^verbatim>\<open>False\<close>.
\<close>

definition install_module :: "string \<Rightarrow> string \<Rightarrow> state \<Rightarrow> (error + bool) \<times> state" where
  "install_module module_path skill_name s =
     (case mkdir_exist_ok (''temp_'' @ skill_name) s of
        (Inl e, s1) \<Rightarrow> (Inl e, s1)
      | (Inr u, s1) \<Rightarrow>
      case install_module_try module_path (''temp_'' @ skill_name) s1 of
        (Inl e, s2) \<Rightarrow> (Inr False, print (InstallationError e) s2)
      | (Inr u, s2) \<Rightarrow> (Inr True, s2))"

text \<open>\<^verbatim>\<open>download_skill\<close> from the comment \<^verbatim>\<open># Verify integrity\<close> to its end.\<close>

definition verify_and_install ::
  "platform \<Rightarrow> string \<Rightarrow> string \<Rightarrow> state \<Rightarrow> (error + bool) \<times> state" where
  "verify_and_install env skill_name module_path s =
     (case verify_module env module_path (print VerifyingIntegrity s) of
        (Inl e, s1) \<Rightarrow> (Inl e, s1)
      | (Inr verified, s1) \<Rightarrow>
          if \<not> verified then (Inr False, print VerificationFailed s1)
          else
            (case install_module module_path skill_name (print DownloadingKnowledge s1) of
               (Inl e, s2) \<Rightarrow> (Inl e, s2)
             | (Inr install_success, s2) \<Rightarrow>
                 if install_success then
                   (Inr True,
                    (print (IKnow skill_name) s2)
                      \<lparr>installed_modules :=
                         AList.update skill_name
                           \<lparr>path = module_path, installed_at = loop_time env\<rparr>
                           (installed_modules s2)\<rparr>)
                 else (Inr False, print (FailedToInstall skill_name) s2)))"

text \<open>The branch \<^verbatim>\<open>if not source_url\<close>: the module must be in the working directory.\<close>

definition download_local :: "platform \<Rightarrow> string \<Rightarrow> state \<Rightarrow> (error + bool) \<times> state" where
  "download_local env skill_name s =
     (if map_of (cwd s) (skill_name @ ''.mkm'') = None
      then (Inr False, print RegistryHint (print (NotFoundLocally skill_name) s))
      else verify_and_install env skill_name (skill_name @ ''.mkm'') s)"

text \<open>\<^verbatim>\<open>download_skill\<close>; \<^verbatim>\<open>not source_url\<close> holds for \<^verbatim>\<open>None\<close> and for the empty string.\<close>

definition download_skill ::
  "platform \<Rightarrow> string \<Rightarrow> string option \<Rightarrow> state \<Rightarrow> (error + bool) \<times> state" where
  "download_skill env skill_name source_url s =
     (case source_url of
        None \<Rightarrow> download_local env skill_name (print (Searching skill_name) s)
      | Some url \<Rightarrow>
          if url = [] then download_local env skill_name (print (Searching skill_name) s)
          else
            (case download_from_url url skill_name (print (Searching skill_name) s) of
               (module_path, s1) \<Rightarrow> verify_and_install env skill_name module_path s1))"

definition list_installed_modules :: "state \<Rightarrow> (string \<times> module_record) list" where
  "list_installed_modules s = installed_modules s"

subsection \<open>The packager\<close>

text \<open>The dicts the packager serialises, key by key as the source writes them.\<close>

definition chunk_dict :: "chunk \<Rightarrow> pyval" where
  "chunk_dict c =
     PDict [(''id'', PInt (c_id c)), (''text'', PStr (c_text c)),
            (''entity'', PStr (c_entity c)), (''type'', PStr (c_type c))]"

definition chunk_meta_dict :: "chunk_meta \<Rightarrow> pyval" where
  "chunk_meta_dict m =
     PDict [(''chunk_id'', PInt (chunk_id m)), (''entity_name'', PStr (entity_name m)),
            (''entity_type'', PStr (entity_type m)), (''char_count'', PInt (char_count m))]"

definition embeddings_dict :: "embeddings \<Rightarrow> pyval" where
  "embeddings_dict d =
     PDict [(''chunks'', PList (map chunk_dict (chunks d))),
            (''metadata'', PList (map chunk_meta_dict (metadata d))),
            (''entity_map'', PDict (map (\<lambda>kv. (fst kv, PStr (snd kv))) (entity_map d)))]"

definition metadata_doc :: "platform \<Rightarrow> entity list \<Rightarrow> string \<Rightarrow> string \<Rightarrow> pyval" where
  "metadata_doc env entities module_name description =
     PDict [(''name'', PStr module_name),
            (''description'', PStr description),
            (''version'', PStr ''1.0.0''),
            (''created'', PStr (created_now env)),
            (''type'', PStr ''memory_export''),
            (''entity_count'', PInt (int (length entities))),
            (''skills_provided'', PList (map PStr (extract_skills entities))),
            (''prerequisites'', PList []),
            (''size_estimate_mb'', PFloat (estimate_size env entities))]"

definition sources_doc :: "platform \<Rightarrow> entity list \<Rightarrow> pyval" where
  "sources_doc env entities =
     PDict [(''memory_entities'', PList (map (\<lambda>e. PStr (get_or (name e) ''unknown'')) entities)),
            (''export_timestamp'', PStr (export_now env)),
            (''total_observations'', PInt (int (total_observations entities)))]"

definition manifest_doc :: pyval where
  "manifest_doc =
     PDict [(''install_steps'',
             PList [PDict [(''action'', PStr ''load_embeddings''), (''file'', PStr ''embeddings.pkl'')],
                    PDict [(''action'', PStr ''register_metadata''), (''file'', PStr ''metadata.json'')],
                    PDict [(''action'', PStr ''verify_integrity''), (''check'', PStr ''hash'')]]),
            (''requirements'',
             PDict [(''vector_db'', PStr ''supabase_or_qdrant''), (''min_memory_mb'', PInt 100)])]"

text \<open>
  \<^verbatim>\<open>with open(directory / fname, "w") as f\<close> and the dump into it: a new file is
  readable, a file that is replaced keeps its permission.
\<close>

definition write_entry ::
  "string \<Rightarrow> string \<Rightarrow> content \<Rightarrow> state \<Rightarrow> (error + unit) \<times> state" where
  "write_entry d fname c s =
     (case map_of (cwd s) d of
        None \<Rightarrow> (Inl FileNotFoundError, s)
      | Some (File f) \<Rightarrow> (Inl NotADirectoryError, s)
      | Some (Dir es) \<Rightarrow>
          (Inr (),
           s\<lparr>cwd := AList.update d
                (Dir (AList.update fname
                        (case map_of es fname of None \<Rightarrow> True | Some (r, old) \<Rightarrow> r, c) es))
                (cwd s)\<rparr>))"

text \<open>
  \<^verbatim>\<open>tarfile.open(path, "w:gz")\<close>: the file is created or truncated at once, as an
  archive without members yet; the result is its read permission.
\<close>

definition tarfile_open_w :: "string \<Rightarrow> state \<Rightarrow> (error + bool) \<times> state" where
  "tarfile_open_w p s =
     (case map_of (cwd s) p of
        Some (Dir es) \<Rightarrow> (Inl IsADirectoryError, s)
      | Some (File (r, old)) \<Rightarrow>
          (Inr r, s\<lparr>cwd := AList.update p (File (r, TarGzOpen [])) (cwd s)\<rparr>)
      | None \<Rightarrow> (Inr True, s\<lparr>cwd := AList.update p (File (True, TarGzOpen [])) (cwd s)\<rparr>))"

text \<open>\<^verbatim>\<open>Path.iterdir\<close>, in the order of the directory's list.\<close>

definition iterdir :: "string \<Rightarrow> state \<Rightarrow> error + (string \<times> regular_file) list" where
  "iterdir d s =
     (case map_of (cwd s) d of
        None \<Rightarrow> Inl FileNotFoundError
      | Some (File f) \<Rightarrow> Inl NotADirectoryError
      | Some (Dir es) \<Rightarrow> Inr es)"

text \<open>
  The loop of \<^verbatim>\<open>tar.add(file, arcname=file.name)\<close>: a file that cannot be read raises
  before anything of it is written. The result is the error, if any, and the members
  written so far.
\<close>

fun tar_add_all ::
  "(string \<times> regular_file) list \<Rightarrow> (string \<times> content) list
     \<Rightarrow> error option \<times> (string \<times> content) list" where
  "tar_add_all [] ms = (None, ms)"
| "tar_add_all ((n, (r, c)) # files) ms =
     (if r then tar_add_all files (ms @ [(n, c)]) else (Some PermissionError, ms))"

text \<open>
  The block \<^verbatim>\<open>with tarfile.open(mkm_path, "w:gz") as tar\<close>: leaving it normally closes
  the archive, leaving it by an exception closes the file without finishing the archive.
\<close>

definition write_archive :: "string \<Rightarrow> string \<Rightarrow> state \<Rightarrow> (error + unit) \<times> state" where
  "write_archive module_dir mkm_path s =
     (case tarfile_open_w mkm_path s of
        (Inl e, s1) \<Rightarrow> (Inl e, s1)
      | (Inr r, s1) \<Rightarrow>
      case iterdir module_dir s1 of Inl e \<Rightarrow> (Inl e, s1) | Inr files \<Rightarrow>
      case tar_add_all files [] of
        (Some e, ms) \<Rightarrow>
          (Inl e, s1\<lparr>cwd := AList.update mkm_path (File (r, TarGzOpen ms)) (cwd s1)\<rparr>)
      | (None, ms) \<Rightarrow>
          (Inr (), s1\<lparr>cwd := AList.update mkm_path (File (r, TarGz ms)) (cwd s1)\<rparr>))"

text \<open>\<^verbatim>\<open>create_from_memory\<close>; it has no handler, so every exception leaves it.\<close>

definition create_from_memory ::
  "platform \<Rightarrow> entity list \<Rightarrow> string \<Rightarrow> string \<Rightarrow> state \<Rightarrow> (error + string) \<times> state" where
  "create_from_memory env entities module_name description s =
     (case mkdir_exist_ok (''temp_'' @ module_name) (print (CreatingModule module_name) s) of
        (Inl e, s1) \<Rightarrow> (Inl e, s1)
      | (Inr u, s1) \<Rightarrow>
      case write_entry (''temp_'' @ module_name) ''metadata.json''
             (Json (metadata_doc env entities module_name description)) s1 of
        (Inl e, s2) \<Rightarrow> (Inl e, s2)
      | (Inr u, s2) \<Rightarrow>
      case write_entry (''temp_'' @ module_name) ''embeddings.pkl''
             (Pickle (embeddings_dict (create_embeddings_data entities)))
             (print ProcessingEntities s2) of
        (Inl e, s3) \<Rightarrow> (Inl e, s3)
      | (Inr u, s3) \<Rightarrow>
      case write_entry (''temp_'' @ module_name) ''sources.json''
             (Json (sources_doc env entities)) s3 of
        (Inl e, s4) \<Rightarrow> (Inl e, s4)
      | (Inr u, s4) \<Rightarrow>
      case write_entry (''temp_'' @ module_name) ''manifest.json'' (Json manifest_doc) s4 of
        (Inl e, s5) \<Rightarrow> (Inl e, s5)
      | (Inr u, s5) \<Rightarrow>
      case write_archive (''temp_'' @ module_name) (module_name @ ''.mkm'')
             (print PackagingModule s5) of
        (Inl e, s6) \<Rightarrow> (Inl e, s6)
      | (Inr u, s6) \<Rightarrow>
      case calculate_hash env (module_name @ ''.mkm'') s6 of
        Inl e \<Rightarrow> (Inl e, s6)
      | Inr module_hash \<Rightarrow>
      case rmtree (''temp_'' @ module_name)
             (print (ModuleCreated (module_name @ ''.mkm'') (take 16 module_hash)) s6) of
        (Inl e, s7) \<Rightarrow> (Inl e, s7)
      | (Inr u, s7) \<Rightarrow> (Inr (module_name @ ''.mkm''), s7))"

subsection \<open>The specification's words\<close>

text \<open>
  The skill tag of one entity as the specification derives it: ``slugify = lowercase,
  spaces replaced with underscores''; a missing name is the empty string.
\<close>

definition slugify :: "string \<Rightarrow> string" where
  "slugify s = replace_space (lower s)"

definition skill_tag :: "entity \<Rightarrow> string option" where
  "skill_tag e =
     (if entityType e = Some ''Active_Project''
        then Some (''project_'' @ slugify (get_or (name e) ''''))
      else if entityType e = Some ''Tool_Reference''
        then Some (''tool_'' @ lower (get_or (name e) ''''))
      else if entityType e = Some ''System_Protocol''
        then Some (''protocol_'' @ slugify (get_or (name e) ''''))
      else None)"

text \<open>An entity with every missing key filled by the encoder's placeholder.\<close>

definition with_defaults :: "entity \<Rightarrow> entity" where
  "with_defaults e =
     \<lparr>name = Some (get_or (name e) ''unknown''),
      entityType = Some (get_or (entityType e) ''unknown''),
      observations = Some (get_or (observations e) [])\<rparr>"

text \<open>A platform and a starting state for the examples.\<close>

definition example_platform :: platform where
  "example_platform =
     \<lparr>sha256 = (\<lambda>c. ''0123456789abcdef0123456789abcdef0123456789abcdef0123456789abcdef''),
      created_now = ''2025-06-21T10:00:00'',
      export_now = ''2025-06-21T10:00:01'', estimate_size = (\<lambda>es. 0), loop_time = 5\<rparr>"

text \<open>The same with the skill extractor's default, the empty string.\<close>

definition with_blanks :: "entity \<Rightarrow> entity" where
  "with_blanks e =
     e\<lparr>name := Some (get_or (name e) ''''), entityType := Some (get_or (entityType e) '''')\<rparr>"

text \<open>Every file of a directory can be read (vacuously so when the directory is not there).\<close>

definition all_readable :: "string \<Rightarrow> state \<Rightarrow> bool" where
  "all_readable d s =
     (case map_of (cwd s) d of
        Some (Dir es) \<Rightarrow> list_all (\<lambda>(n, r, c). r) es
      | _ \<Rightarrow> True)"

text \<open>
  Example install steps: two of the packager's, one whose file is not in the archive, and
  one with an action the loader does not know.
\<close>

definition step_a :: pyval where
  "step_a = PDict [(''action'', PStr ''register_metadata''), (''file'', PStr ''metadata.json'')]"

definition step_b :: pyval where
  "step_b = PDict [(''action'', PStr ''load_embeddings''), (''file'', PStr ''missing.pkl'')]"

definition step_c :: pyval where
  "step_c = PDict [(''action'', PStr ''verify_integrity''), (''check'', PStr ''hash'')]"

definition step_u :: pyval where
  "step_u = PDict [(''action'', PStr ''send_telemetry'')]"

text \<open>An archive \<^verbatim>\<open>x.mkm\<close> with the given steps in its manifest, alone in the working directory.\<close>

definition example_archive :: "pyval list \<Rightarrow> content" where
  "example_archive steps =
     TarGz [(''manifest.json'', Json (PDict [(''install_steps'', PList steps)])),
            (''metadata.json'',
             Json (PDict [(''name'', PStr ''x''), (''description'', PStr ''demo''),
                          (''skills_provided'', PList [PStr ''tool_x''])]))]"

definition example_state :: "pyval list \<Rightarrow> state" where
  "example_state steps =
     \<lparr>cwd = [(''x.mkm'', File (True, example_archive steps))], stdout = [],
      installed_modules = []\<rparr>"

text \<open>The states of its installation after \<^verbatim>\<open>mkdir\<close> and at the start of the loop.\<close>

definition example_made :: "pyval list \<Rightarrow> state" where
  "example_made steps = snd (mkdir_exist_ok ''temp_x'' (example_state steps))"

definition example_unpacked :: "pyval list \<Rightarrow> state" where
  "example_unpacked steps = snd (unpack_module ''x.mkm'' ''temp_x'' (example_made steps))"

text \<open>
  A working directory in which an earlier run left \<^verbatim>\<open>temp_m\<close> behind, with a file that
  cannot be read.
\<close>

definition leftover_state :: state where
  "leftover_state =
     \<lparr>cwd = [(''temp_m'', Dir [(''metadata.json'', True, Json (PDict [])),
                                (''notes.txt'', False, Bytes ''private'')])],
      stdout = [], installed_modules = []\<rparr>"

text \<open>
  The files of the scratch directory when the archive is written: those it held when the
  call started, with the four documents written over or after them (\<open>replace_file\<close> is
  what \<open>write_entry\<close> does to the list of a directory), and the archive that holds
  exactly these files, finished.
\<close>

definition replace_file ::
  "string \<Rightarrow> content \<Rightarrow> (string \<times> regular_file) list \<Rightarrow> (string \<times> regular_file) list" where
  "replace_file fname c es =
     AList.update fname (case map_of es fname of None \<Rightarrow> True | Some (r, old) \<Rightarrow> r, c) es"

definition scratch_at_start :: "string \<Rightarrow> state \<Rightarrow> (string \<times> regular_file) list" where
  "scratch_at_start d s = (case map_of (cwd s) d of Some (Dir es) \<Rightarrow> es | _ \<Rightarrow> [])"

definition scratch_files ::
  "platform \<Rightarrow> entity list \<Rightarrow> string \<Rightarrow> string \<Rightarrow> (string \<times> regular_file) list
     \<Rightarrow> (string \<times> regular_file) list" where
  "scratch_files env entities module_name description es =
     replace_file ''manifest.json'' (Json manifest_doc)
       (replace_file ''sources.json'' (Json (sources_doc env entities))
          (replace_file ''embeddings.pkl''
             (Pickle (embeddings_dict (create_embeddings_data entities)))
             (replace_file ''metadata.json''
                (Json (metadata_doc env entities module_name description)) es)))"

definition finished_archive ::
  "platform \<Rightarrow> entity list \<Rightarrow> string \<Rightarrow> string \<Rightarrow> state \<Rightarrow> content" where
  "finished_archive env entities module_name description s =
     TarGz (map (\<lambda>(n, r, c). (n, c))
              (scratch_files env entities module_name description
                 (scratch_at_start (''temp_'' @ module_name) s)))"

text \<open>
  The entity of the specification's scenario, and a working directory in which
  \<^verbatim>\<open>m.mkm\<close> exists and cannot be read while \<^verbatim>\<open>temp_m\<close> holds one readable file.
\<close>

definition sample_entities :: "entity list" where
  "sample_entities =
     [\<lparr>name = Some ''Sample'', entityType = Some ''Tool_Reference'',
       observations = Some [''x'', ''y'']\<rparr>]"

definition unreadable_destination_state :: state where
  "unreadable_destination_state =
     \<lparr>cwd = [(''m.mkm'', File (False, Bytes ''old'')),
              (''temp_m'', Dir [(''notes.txt'', True, Bytes ''kept'')])],
      stdout = [], installed_modules = []\<rparr>"

section \<open>Properties\<close>

subsection \<open>The embeddings encoder\<close>

lemma observations_loop_snd:
  "snd (observations_loop en et obs (d, k)) = k + int (length obs)"
  by (induction obs arbitrary: d k) auto

lemma zip_upt_Cons:
  "zip [0..<Suc (length rest)] (ob # rest) =
     (0, ob) # map (\<lambda>(i, x). (Suc i, x)) (zip [0..<length rest] rest)"
  by (simp add: upt_conv_Cons map_Suc_upt [symmetric] zip_map1 del: upt_Suc)

lemma observations_loop_chunks:
  "chunks (fst (observations_loop en et obs (d, k))) =
     chunks d @ map (\<lambda>(i, ob). \<lparr>c_id = k + int i, c_text = ob, c_entity = en, c_type = et\<rparr>)
                  (zip [0..<length obs] obs)"
proof (induction obs arbitrary: d k)
  case Nil
  then show ?case by simp
next
  case (Cons ob rest)
  then show ?case by (simp add: zip_upt_Cons case_prod_beta comp_def del: upt_Suc)
qed

lemma observations_loop_metadata:
  "metadata (fst (observations_loop en et obs (d, k))) =
     metadata d @ map (\<lambda>(i, ob). \<lparr>chunk_id = k + int i, entity_name = en, entity_type = et,
                                   char_count = int (length ob)\<rparr>)
                  (zip [0..<length obs] obs)"
proof (induction obs arbitrary: d k)
  case Nil
  then show ?case by simp
next
  case (Cons ob rest)
  then show ?case by (simp add: zip_upt_Cons case_prod_beta comp_def del: upt_Suc)
qed

lemma observations_loop_entity_map:
  "entity_map (fst (observations_loop en et obs (d, k))) = entity_map d"
  by (induction obs arbitrary: d k) auto

lemma map_zip_upt_fst: "map (\<lambda>p. f (fst p)) (zip [0..<length xs] xs) = map f [0..<length xs]"
proof -
  have "map (\<lambda>p. f (fst p)) (zip [0..<length xs] xs) = map f (map fst (zip [0..<length xs] xs))"
    by (simp only: map_map comp_def)
  also have "map fst (zip [0..<length xs] xs) = [0..<length xs]"
    by simp
  finally show ?thesis .
qed

lemma map_zip_upt_snd: "map (\<lambda>p. g (snd p)) (zip [0..<length xs] xs) = map g xs"
proof -
  have "map (\<lambda>p. g (snd p)) (zip [0..<length xs] xs) = map g (map snd (zip [0..<length xs] xs))"
    by (simp only: map_map comp_def)
  also have "map snd (zip [0..<length xs] xs) = xs"
    by simp
  finally show ?thesis .
qed

lemma map_upt_append: "map f [0..<a] @ map (\<lambda>i. f (a + i)) [0..<b] = map f [0..<a + b]"
proof -
  have "[0..<a + b] = [0..<a] @ map (\<lambda>i. a + i) [0..<b]"
    by (induction b) auto
  then show ?thesis by (simp add: comp_def)
qed

lemma entities_loop_snd:
  "snd (entities_loop es (d, k)) = k + int (\<Sum>e\<leftarrow>es. length (get_or (observations e) []))"
proof (induction es arbitrary: d k)
  case Nil
  then show ?case by simp
next
  case (Cons e es)
  obtain d1 k1 where l: "observations_loop (get_or (name e) ''unknown'')
      (get_or (entityType e) ''unknown'') (get_or (observations e) []) (d, k) = (d1, k1)"
    by (cases "observations_loop (get_or (name e) ''unknown'')
      (get_or (entityType e) ''unknown'') (get_or (observations e) []) (d, k)")
  have "k1 = k + int (length (get_or (observations e) []))"
    using observations_loop_snd [of "get_or (name e) ''unknown''"
      "get_or (entityType e) ''unknown''" "get_or (observations e) []" d k] l by simp
  then show ?case using Cons l by simp
qed

lemma observations_loop_ids:
  "map c_id (chunks (fst (observations_loop en et obs (d, k)))) =
     map c_id (chunks d) @ map (\<lambda>i. k + int i) [0..<length obs]"
  using map_zip_upt_fst [of "\<lambda>i. k + int i" obs]
  by (simp add: observations_loop_chunks case_prod_beta comp_def)

lemma observations_loop_chunk_ids:
  "map chunk_id (metadata (fst (observations_loop en et obs (d, k)))) =
     map chunk_id (metadata d) @ map (\<lambda>i. k + int i) [0..<length obs]"
  using map_zip_upt_fst [of "\<lambda>i. k + int i" obs]
  by (simp add: observations_loop_metadata case_prod_beta comp_def)

lemma observations_loop_texts:
  "map (\<lambda>c. (c_entity c, c_type c, c_text c)) (chunks (fst (observations_loop en et obs (d, k)))) =
     map (\<lambda>c. (c_entity c, c_type c, c_text c)) (chunks d) @ map (\<lambda>ob. (en, et, ob)) obs"
  using map_zip_upt_snd [of "\<lambda>ob. (en, et, ob)" obs]
  by (simp add: observations_loop_chunks case_prod_beta comp_def)

lemma observations_loop_counts:
  "map (\<lambda>m. (entity_name m, entity_type m, char_count m))
       (metadata (fst (observations_loop en et obs (d, k)))) =
     map (\<lambda>m. (entity_name m, entity_type m, char_count m)) (metadata d) @
     map (\<lambda>ob. (en, et, int (length ob))) obs"
  using map_zip_upt_snd [of "\<lambda>ob. (en, et, int (length ob))" obs]
  by (simp add: observations_loop_metadata case_prod_beta comp_def)

lemma entities_loop_ids:
  "map c_id (chunks (fst (entities_loop es (d, k)))) =
     map c_id (chunks d) @
     map (\<lambda>i. k + int i) [0..<(\<Sum>e\<leftarrow>es. length (get_or (observations e) []))]"
proof (induction es arbitrary: d k)
  case Nil
  then show ?case by simp
next
  case (Cons e es)
  let ?en = "get_or (name e) ''unknown''" and ?et = "get_or (entityType e) ''unknown''"
  let ?obs = "get_or (observations e) []"
  obtain d1 k1 where l: "observations_loop ?en ?et ?obs (d, k) = (d1, k1)"
    by (cases "observations_loop ?en ?et ?obs (d, k)")
  have k1: "k1 = k + int (length ?obs)"
    using observations_loop_snd [of ?en ?et ?obs d k] l by simp
  have "map c_id (chunks d1) = map c_id (chunks d) @ map (\<lambda>i. k + int i) [0..<length ?obs]"
    using observations_loop_ids [of ?en ?et ?obs d k] l by simp
  then show ?case using Cons l k1
    by (simp add: map_upt_append [symmetric] add.assoc)
qed

lemma entities_loop_chunk_ids:
  "map chunk_id (metadata (fst (entities_loop es (d, k)))) =
     map chunk_id (metadata d) @
     map (\<lambda>i. k + int i) [0..<(\<Sum>e\<leftarrow>es. length (get_or (observations e) []))]"
proof (induction es arbitrary: d k)
  case Nil
  then show ?case by simp
next
  case (Cons e es)
  let ?en = "get_or (name e) ''unknown''" and ?et = "get_or (entityType e) ''unknown''"
  let ?obs = "get_or (observations e) []"
  obtain d1 k1 where l: "observations_loop ?en ?et ?obs (d, k) = (d1, k1)"
    by (cases "observations_loop ?en ?et ?obs (d, k)")
  have k1: "k1 = k + int (length ?obs)"
    using observations_loop_snd [of ?en ?et ?obs d k] l by simp
  have "map chunk_id (metadata d1) =
        map chunk_id (metadata d) @ map (\<lambda>i. k + int i) [0..<length ?obs]"
    using observations_loop_chunk_ids [of ?en ?et ?obs d k] l by simp
  then show ?case using Cons l k1
    by (simp add: map_upt_append [symmetric] add.assoc)
qed

lemma entities_loop_texts:
  "map (\<lambda>c. (c_entity c, c_type c, c_text c)) (chunks (fst (entities_loop es (d, k)))) =
     map (\<lambda>c. (c_entity c, c_type c, c_text c)) (chunks d) @
     concat (map (\<lambda>e. map (\<lambda>ob. (get_or (name e) ''unknown'',
                                      get_or (entityType e) ''unknown'', ob))
                            (get_or (observations e) [])) es)"
proof (induction es arbitrary: d k)
  case Nil
  then show ?case by simp
next
  case (Cons e es)
  let ?en = "get_or (name e) ''unknown''" and ?et = "get_or (entityType e) ''unknown''"
  let ?obs = "get_or (observations e) []"
  obtain d1 k1 where l: "observations_loop ?en ?et ?obs (d, k) = (d1, k1)"
    by (cases "observations_loop ?en ?et ?obs (d, k)")
  have "map (\<lambda>c. (c_entity c, c_type c, c_text c)) (chunks d1) =
        map (\<lambda>c. (c_entity c, c_type c, c_text c)) (chunks d) @ map (\<lambda>ob. (?en, ?et, ob)) ?obs"
    using observations_loop_texts [of ?en ?et ?obs d k] l by simp
  then show ?case using Cons l by simp
qed

lemma entities_loop_counts:
  "map (\<lambda>m. (entity_name m, entity_type m, char_count m))
       (metadata (fst (entities_loop es (d, k)))) =
     map (\<lambda>m. (entity_name m, entity_type m, char_count m)) (metadata d) @
     concat (map (\<lambda>e. map (\<lambda>ob. (get_or (name e) ''unknown'',
                                      get_or (entityType e) ''unknown'', int (length ob)))
                            (get_or (observations e) [])) es)"
proof (induction es arbitrary: d k)
  case Nil
  then show ?case by simp
next
  case (Cons e es)
  let ?en = "get_or (name e) ''unknown''" and ?et = "get_or (entityType e) ''unknown''"
  let ?obs = "get_or (observations e) []"
  obtain d1 k1 where l: "observations_loop ?en ?et ?obs (d, k) = (d1, k1)"
    by (cases "observations_loop ?en ?et ?obs (d, k)")
  have "map (\<lambda>m. (entity_name m, entity_type m, char_count m)) (metadata d1) =
        map (\<lambda>m. (entity_name m, entity_type m, char_count m)) (metadata d) @
        map (\<lambda>ob. (?en, ?et, int (length ob))) ?obs"
    using observations_loop_counts [of ?en ?et ?obs d k] l by simp
  then show ?case using Cons l by simp
qed

lemma create_embeddings_data_ids:
  "map c_id (chunks (create_embeddings_data es)) =
     map int [0..<(\<Sum>e\<leftarrow>es. length (get_or (observations e) []))]"
  using entities_loop_ids [of es "\<lparr>chunks = [], metadata = [], entity_map = []\<rparr>" 0]
  by (simp add: create_embeddings_data_def)

lemma create_embeddings_data_chunk_ids:
  "map chunk_id (metadata (create_embeddings_data es)) =
     map int [0..<(\<Sum>e\<leftarrow>es. length (get_or (observations e) []))]"
  using entities_loop_chunk_ids [of es "\<lparr>chunks = [], metadata = [], entity_map = []\<rparr>" 0]
  by (simp add: create_embeddings_data_def)

lemma create_embeddings_data_texts:
  "map (\<lambda>c. (c_entity c, c_type c, c_text c)) (chunks (create_embeddings_data es)) =
     concat (map (\<lambda>e. map (\<lambda>ob. (get_or (name e) ''unknown'',
                                      get_or (entityType e) ''unknown'', ob))
                            (get_or (observations e) [])) es)"
  using entities_loop_texts [of es "\<lparr>chunks = [], metadata = [], entity_map = []\<rparr>" 0]
  by (simp add: create_embeddings_data_def)

lemma create_embeddings_data_counts:
  "map (\<lambda>m. (entity_name m, entity_type m, char_count m))
       (metadata (create_embeddings_data es)) =
     concat (map (\<lambda>e. map (\<lambda>ob. (get_or (name e) ''unknown'',
                                      get_or (entityType e) ''unknown'', int (length ob)))
                            (get_or (observations e) [])) es)"
  using entities_loop_counts [of es "\<lparr>chunks = [], metadata = [], entity_map = []\<rparr>" 0]
  by (simp add: create_embeddings_data_def)

text \<open>
  Claim C5. Encoding entities with \<open>M\<close> observations in total gives exactly \<open>M\<close> chunks
  and \<open>M\<close> metadata records; the \<open>i\<close>-th chunk has id \<open>i\<close> and the \<open>i\<close>-th metadata
  record has the same chunk id; the chunk texts are the observations in
  entity-then-observation order.
\<close>

theorem C5_chunk_ids:
  "length (chunks (create_embeddings_data es)) = total_observations es
   \<and> length (metadata (create_embeddings_data es)) = total_observations es
   \<and> (\<forall>i < total_observations es.
        c_id (chunks (create_embeddings_data es) ! i) = int i
        \<and> chunk_id (metadata (create_embeddings_data es) ! i)
            = c_id (chunks (create_embeddings_data es) ! i))
   \<and> map c_text (chunks (create_embeddings_data es))
       = concat (map (\<lambda>e. get_or (observations e) []) es)"
proof -
  let ?p = "create_embeddings_data es" and ?M = "total_observations es"
  have ids: "map c_id (chunks ?p) = map int [0..<?M]"
    by (simp add: create_embeddings_data_ids total_observations_def)
  have cids: "map chunk_id (metadata ?p) = map int [0..<?M]"
    by (simp add: create_embeddings_data_chunk_ids total_observations_def)
  have len1: "length (chunks ?p) = ?M"
    using arg_cong [OF ids, of length] by simp
  have len2: "length (metadata ?p) = ?M"
    using arg_cong [OF cids, of length] by simp
  have nth1: "c_id (chunks ?p ! i) = int i" if "i < ?M" for i
    using arg_cong [OF ids, of "\<lambda>xs. xs ! i"] that len1 by simp
  have nth2: "chunk_id (metadata ?p ! i) = int i" if "i < ?M" for i
    using arg_cong [OF cids, of "\<lambda>xs. xs ! i"] that len2 by simp
  have "map c_text (chunks ?p) = map (\<lambda>t. snd (snd t)) (map (\<lambda>c. (c_entity c, c_type c, c_text c)) (chunks ?p))"
    by (simp add: comp_def)
  also have "\<dots> = concat (map (\<lambda>e. get_or (observations e) []) es)"
    by (simp only: create_embeddings_data_texts) (simp add: map_concat comp_def)
  finally have texts: "map c_text (chunks ?p) = concat (map (\<lambda>e. get_or (observations e) []) es)" .
  show ?thesis using len1 len2 nth1 nth2 texts by simp
qed

theorem C5_chunk_ids_witness:
  "length (chunks (create_embeddings_data
      [\<lparr>name = Some ''Sample'', entityType = Some ''Tool_Reference'',
         observations = Some [''x'', ''y'']\<rparr>])) = 2
   \<and> c_id (chunks (create_embeddings_data
      [\<lparr>name = Some ''Sample'', entityType = Some ''Tool_Reference'',
         observations = Some [''x'', ''y'']\<rparr>]) ! 1) = 1
   \<and> chunk_id (metadata (create_embeddings_data
      [\<lparr>name = Some ''Sample'', entityType = Some ''Tool_Reference'',
         observations = Some [''x'', ''y'']\<rparr>]) ! 1) = 1"
proof -
  have m: "total_observations
      [\<lparr>name = Some ''Sample'', entityType = Some ''Tool_Reference'',
         observations = Some [''x'', ''y'']\<rparr>] = 2"
    by (simp add: total_observations_def get_or_def)
  have "(1::nat) < 2" by simp
  then show ?thesis
    using C5_chunk_ids [of "[\<lparr>name = Some ''Sample'', entityType = Some ''Tool_Reference'',
         observations = Some [''x'', ''y'']\<rparr>]"] m
    by simp
qed

subsection \<open>The skill extractor\<close>

lemma extract_skills_loop_step:
  "extract_skills_loop (e # es) acc =
     extract_skills_loop es (case skill_tag e of None \<Rightarrow> acc | Some t \<Rightarrow> List.insert t acc)"
  by (cases "entityType e") (simp_all add: skill_tag_def slugify_def get_or_def)

lemma extract_skills_loop_set:
  "set (extract_skills_loop es acc) = set acc \<union> {t. \<exists>e\<in>set es. skill_tag e = Some t}"
proof (induction es arbitrary: acc)
  case Nil
  then show ?case by simp
next
  case (Cons e es)
  show ?case
    unfolding extract_skills_loop_step Cons.IH
    by (cases "skill_tag e") auto
qed

lemma extract_skills_loop_distinct:
  "distinct acc \<Longrightarrow> distinct (extract_skills_loop es acc)"
proof (induction es arbitrary: acc)
  case Nil
  then show ?case by simp
next
  case (Cons e es)
  show ?case
    unfolding extract_skills_loop_step
    by (cases "skill_tag e") (simp_all add: Cons)
qed

lemma extract_skills_loop_append:
  "extract_skills_loop (xs @ ys) acc = extract_skills_loop ys (extract_skills_loop xs acc)"
  by (induction xs arbitrary: acc) (simp_all del: extract_skills_loop.simps(2) add: extract_skills_loop_step)

text \<open>
  Claim C7. The skills of an entity list are exactly the tags of its entities:
  \<open>project_\<close>, \<open>tool_\<close> and \<open>protocol_\<close> tags for the three recognised types, nothing for
  any other type, without duplicates; an entity named \<open>Sample\<close> of type
  \<open>Tool_Reference\<close> gives \<open>tool_sample\<close>.
\<close>

theorem C7_skills_provided:
  "set (extract_skills es) = {t. \<exists>e\<in>set es. skill_tag e = Some t}
   \<and> distinct (extract_skills es)
   \<and> (\<lparr>name = Some ''Sample'', entityType = Some ''Tool_Reference'', observations = obs\<rparr> \<in> set es
        \<longrightarrow> ''tool_sample'' \<in> set (extract_skills es))"
proof -
  have s: "set (extract_skills es) = {t. \<exists>e\<in>set es. skill_tag e = Some t}"
    by (simp add: extract_skills_def extract_skills_loop_set)
  have d: "distinct (extract_skills es)"
    by (simp add: extract_skills_def extract_skills_loop_distinct)
  have t: "skill_tag \<lparr>name = Some ''Sample'', entityType = Some ''Tool_Reference'', observations = obs\<rparr>
             = Some ''tool_sample''"
    by (simp add: skill_tag_def get_or_def lower_def lower_char_def)
  show ?thesis using s d t by blast
qed

theorem C7_skills_provided_witness:
  "set (extract_skills [\<lparr>name = Some ''Sample'', entityType = Some ''Tool_Reference'',
                          observations = Some [''x'', ''y'']\<rparr>]) = {''tool_sample''}
   \<and> extract_skills [\<lparr>name = Some ''My App'', entityType = Some ''Active_Project'', observations = None\<rparr>,
                      \<lparr>name = Some ''my app'', entityType = Some ''Active_Project'', observations = None\<rparr>,
                      \<lparr>name = Some ''Notes'', entityType = Some ''Activity_Log'', observations = None\<rparr>]
       = [''project_my_app'']"
proof -
  have "\<lparr>name = Some ''Sample'', entityType = Some ''Tool_Reference'', observations = Some [''x'', ''y'']\<rparr>
          \<in> set [\<lparr>name = Some ''Sample'', entityType = Some ''Tool_Reference'',
                    observations = Some [''x'', ''y'']\<rparr>]"
    by simp
  then have "''tool_sample'' \<in> set (extract_skills [\<lparr>name = Some ''Sample'',
      entityType = Some ''Tool_Reference'', observations = Some [''x'', ''y'']\<rparr>])"
    using C7_skills_provided [of "[\<lparr>name = Some ''Sample'', entityType = Some ''Tool_Reference'',
      observations = Some [''x'', ''y'']\<rparr>]" "Some [''x'', ''y'']"] by blast
  moreover have "extract_skills [\<lparr>name = Some ''Sample'', entityType = Some ''Tool_Reference'',
      observations = Some [''x'', ''y'']\<rparr>] = [''tool_sample'']"
    by (simp add: extract_skills_def get_or_def lower_def lower_char_def)
  moreover have "extract_skills [\<lparr>name = Some ''My App'', entityType = Some ''Active_Project'', observations = None\<rparr>,
                      \<lparr>name = Some ''my app'', entityType = Some ''Active_Project'', observations = None\<rparr>,
                      \<lparr>name = Some ''Notes'', entityType = Some ''Activity_Log'', observations = None\<rparr>]
       = [''project_my_app'']"
    by (simp add: extract_skills_def get_or_def lower_def lower_char_def replace_space_def)
  ultimately show ?thesis by simp
qed

subsection \<open>Missing keys\<close>

lemma get_or_with_defaults [simp]:
  "get_or (name (with_defaults e)) ''unknown'' = get_or (name e) ''unknown''"
  "get_or (entityType (with_defaults e)) ''unknown'' = get_or (entityType e) ''unknown''"
  "get_or (observations (with_defaults e)) [] = get_or (observations e) []"
  by (simp_all add: with_defaults_def get_or_def)

lemma entities_loop_with_defaults:
  "entities_loop (map with_defaults es) acc = entities_loop es acc"
proof (induction es arbitrary: acc)
  case Nil
  then show ?case by simp
next
  case (Cons e es)
  obtain d k where acc: "acc = (d, k)" by (cases acc)
  show ?case unfolding acc by (simp add: Cons case_prod_beta Let_def)
qed

lemma entities_loop_keys:
  "fst ` set (entity_map (fst (entities_loop es (d, k)))) =
     fst ` set (entity_map d) \<union> (\<lambda>e. get_or (name e) ''unknown'') ` set es"
proof (induction es arbitrary: d k)
  case Nil
  then show ?case by simp
next
  case (Cons e es)
  let ?en = "get_or (name e) ''unknown''" and ?et = "get_or (entityType e) ''unknown''"
  let ?obs = "get_or (observations e) []"
  obtain d1 k1 where l: "observations_loop ?en ?et ?obs (d, k) = (d1, k1)"
    by (cases "observations_loop ?en ?et ?obs (d, k)")
  have em: "entity_map d1 = entity_map d"
    using observations_loop_entity_map [of ?en ?et ?obs d k] l by simp
  have "fst ` set (AList.update ?en ?et (entity_map d)) = insert ?en (fst ` set (entity_map d))"
    using dom_update [of ?en ?et "entity_map d"] by (simp add: dom_map_of_conv_image_fst)
  then show ?case using Cons l em by simp
qed

subsection \<open>What the loader leaves unchanged\<close>

lemma print_frame [simp]:
  "cwd (print m s) = cwd s"
  "installed_modules (print m s) = installed_modules s"
  "stdout (print m s) = stdout s @ [m]"
  by (simp_all add: print_def)

lemma read_entry_print [simp]: "read_entry d f (print m s) = read_entry d f s"
  by (simp add: read_entry_def)

lemma load_embeddings_print [simp]: "load_embeddings step d (print m s) = load_embeddings step d s"
  by (simp add: load_embeddings_def split: sum.splits)

lemma execute_install_step_frame:
  assumes "execute_install_step step d s = (r, s')"
  shows "cwd s' = cwd s" and "installed_modules s' = installed_modules s"
  using assms
  by (auto simp: execute_install_step_def split: sum.splits if_splits)

lemma install_steps_frame:
  assumes "install_steps steps d s = (r, s')"
  shows "cwd s' = cwd s \<and> installed_modules s' = installed_modules s"
  using assms
proof (induction steps arbitrary: s)
  case Nil
  then show ?case by simp
next
  case (Cons step rest)
  obtain r1 s1 where ex: "execute_install_step step d s = (r1, s1)"
    by (cases "execute_install_step step d s")
  note fr = execute_install_step_frame [OF ex]
  show ?case
  proof (cases r1)
    case (Inl e)
    then show ?thesis using Cons.prems ex fr by simp
  next
    case (Inr u)
    then have "install_steps rest d s1 = (r, s')" using Cons.prems ex by simp
    then show ?thesis using Cons.IH fr by simp
  qed
qed

lemma install_steps_append:
  "install_steps (pre @ post) d s =
     (case install_steps pre d s of
        (Inl e, s1) \<Rightarrow> (Inl e, s1)
      | (Inr u, s1) \<Rightarrow> install_steps post d s1)"
proof (induction pre arbitrary: s)
  case Nil
  then show ?case by simp
next
  case (Cons step rest)
  show ?case
    by (cases "execute_install_step step d s") (simp add: Cons split: sum.splits)
qed

lemma execute_unrecognized:
  assumes "py_getitem step ''action'' = Inr a"
    and "a \<noteq> PStr ''load_embeddings''" and "a \<noteq> PStr ''register_metadata''"
    and "a \<noteq> PStr ''verify_integrity''"
  shows "execute_install_step step d s = (Inr (), s)"
  using assms by (simp add: execute_install_step_def)

lemma mkdir_exist_ok_frame:
  assumes "mkdir_exist_ok d s = (r, s')"
  shows "installed_modules s' = installed_modules s" and "stdout s' = stdout s"
  using assms by (auto simp: mkdir_exist_ok_def split: option.splits node.splits)

lemma mkdir_exist_ok_dir:
  assumes "mkdir_exist_ok d s = (Inr u, s')"
  shows "\<exists>es. map_of (cwd s') d = Some (Dir es)"
  using assms by (auto simp: mkdir_exist_ok_def update_conv' split: option.splits node.splits)

lemma extract_module_frame:
  assumes "extract_module mp d s = (r, s')"
  shows "installed_modules s' = installed_modules s" and "stdout s' = stdout s"
  using assms
  by (auto simp: extract_module_def split: sum.splits option.splits node.splits)

lemma extract_module_dir:
  assumes "extract_module mp d s = (Inr u, s')"
  shows "\<exists>es. map_of (cwd s') d = Some (Dir es)"
  using assms
  by (auto simp: extract_module_def update_conv' split: sum.splits option.splits node.splits)

lemma print_metadata_frame:
  assumes "print_metadata md s = (r, s')"
  shows "cwd s' = cwd s" and "installed_modules s' = installed_modules s"
  using assms
  by (auto simp: print_metadata_def split: sum.splits)

lemma unpack_module_frame:
  assumes "unpack_module mp d s = (r, s')"
  shows "installed_modules s' = installed_modules s"
proof -
  obtain r1 s1 where ex: "extract_module mp d s = (r1, s1)"
    by (cases "extract_module mp d s")
  note f1 = extract_module_frame(1) [OF ex]
  show ?thesis
  proof (cases r1)
    case (Inl e)
    then show ?thesis using assms ex f1 by (simp add: unpack_module_def)
  next
    case (Inr u)
    show ?thesis
    proof (cases "load_json d ''manifest.json'' s1")
      case (Inl e)
      then show ?thesis using assms ex f1 Inr by (simp add: unpack_module_def)
    next
      case manifest: (Inr manifest)
      show ?thesis
      proof (cases "load_json d ''metadata.json'' s1")
        case (Inl e)
        then show ?thesis using assms ex f1 Inr manifest by (simp add: unpack_module_def)
      next
        case md: (Inr md)
        obtain r2 s2 where pm: "print_metadata md s1 = (r2, s2)"
          by (cases "print_metadata md s1")
        note f2 = print_metadata_frame(2) [OF pm]
        show ?thesis using assms ex f1 f2 Inr manifest md pm
          by (auto simp: unpack_module_def split: sum.splits)
      qed
    qed
  qed
qed

lemma unpack_module_dir:
  assumes "unpack_module mp d s = (Inr steps, s')"
  shows "\<exists>es. map_of (cwd s') d = Some (Dir es)"
proof -
  obtain r1 s1 where ex: "extract_module mp d s = (r1, s1)"
    by (cases "extract_module mp d s")
  show ?thesis
  proof (cases r1)
    case (Inl e)
    then show ?thesis using assms ex by (simp add: unpack_module_def)
  next
    case (Inr u)
    then have dir: "\<exists>es. map_of (cwd s1) d = Some (Dir es)"
      using extract_module_dir ex by blast
    show ?thesis
    proof (cases "load_json d ''manifest.json'' s1")
      case (Inl e)
      then show ?thesis using assms ex Inr by (simp add: unpack_module_def)
    next
      case manifest: (Inr manifest)
      show ?thesis
      proof (cases "load_json d ''metadata.json'' s1")
        case (Inl e)
        then show ?thesis using assms ex Inr manifest by (simp add: unpack_module_def)
      next
        case md: (Inr md)
        obtain r2 s2 where pm: "print_metadata md s1 = (r2, s2)"
          by (cases "print_metadata md s1")
        note f2 = print_metadata_frame(1) [OF pm]
        show ?thesis using assms ex dir f2 Inr manifest md pm
          by (auto simp: unpack_module_def split: sum.splits)
      qed
    qed
  qed
qed

lemma rmtree_dir:
  assumes "map_of (cwd s) d = Some (Dir es)"
  shows "rmtree d s = (Inr (), s\<lparr>cwd := AList.delete d (cwd s)\<rparr>)"
  using assms by (simp add: rmtree_def)

lemma rmtree_frame:
  assumes "rmtree d s = (r, s')"
  shows "installed_modules s' = installed_modules s" and "stdout s' = stdout s"
  using assms by (auto simp: rmtree_def split: option.splits node.splits)

lemma install_module_try_frame:
  assumes "install_module_try mp d s = (r, s')"
  shows "installed_modules s' = installed_modules s"
proof -
  obtain r2 s2 where up: "unpack_module mp d s = (r2, s2)"
    by (cases "unpack_module mp d s")
  note f2 = unpack_module_frame [OF up]
  show ?thesis
  proof (cases r2)
    case (Inl e)
    then show ?thesis using assms up f2 by (simp add: install_module_try_def)
  next
    case (Inr steps)
    obtain r3 s3 where st: "install_steps steps d s2 = (r3, s3)"
      by (cases "install_steps steps d s2")
    note f3 = install_steps_frame [OF st]
    show ?thesis
    proof (cases r3)
      case (Inl e)
      then show ?thesis using assms up f2 f3 Inr st by (simp add: install_module_try_def)
    next
      case u: (Inr u)
      then have "rmtree d s3 = (r, s')"
        using assms up Inr st by (simp add: install_module_try_def)
      then show ?thesis using rmtree_frame(1) f2 f3 by simp
    qed
  qed
qed

lemma install_module_frame:
  assumes "install_module mp skill s = (r, s')"
  shows "installed_modules s' = installed_modules s"
proof -
  obtain r1 s1 where mk: "mkdir_exist_ok (''temp_'' @ skill) s = (r1, s1)"
    by (cases "mkdir_exist_ok (''temp_'' @ skill) s")
  note f1 = mkdir_exist_ok_frame(1) [OF mk]
  show ?thesis
  proof (cases r1)
    case (Inl e)
    then show ?thesis using assms mk f1 by (simp add: install_module_def)
  next
    case (Inr u)
    obtain r2 s2 where tr: "install_module_try mp (''temp_'' @ skill) s1 = (r2, s2)"
      by (cases "install_module_try mp (''temp_'' @ skill) s1")
    note f2 = install_module_try_frame [OF tr]
    show ?thesis using assms mk f1 f2 Inr tr
      by (cases r2) (auto simp: install_module_def)
  qed
qed

lemma verify_module_frame:
  assumes "verify_module env mp s = (r, s')"
  shows "installed_modules s' = installed_modules s" and "cwd s' = cwd s"
  using assms by (auto simp: verify_module_def split: sum.splits)

lemma verify_module_not_False: "fst (verify_module env mp s) \<noteq> Inr False"
  by (simp add: verify_module_def split: sum.splits)

lemma verify_and_install_registry:
  assumes "verify_and_install env skill mp s = (r, s')"
  shows "installed_modules s' =
           (if r = Inr True
            then AList.update skill \<lparr>path = mp, installed_at = loop_time env\<rparr> (installed_modules s)
            else installed_modules s)"
proof -
  obtain r1 s1 where v: "verify_module env mp (print VerifyingIntegrity s) = (r1, s1)"
    by (cases "verify_module env mp (print VerifyingIntegrity s)")
  have f1: "installed_modules s1 = installed_modules s"
    using verify_module_frame(1) [OF v] by simp
  show ?thesis
  proof (cases r1)
    case (Inl e)
    then show ?thesis using assms v f1 by (auto simp: verify_and_install_def)
  next
    case (Inr verified)
    show ?thesis
    proof (cases verified)
      case False
      then show ?thesis using assms v f1 Inr by (auto simp: verify_and_install_def)
    next
      case True
      obtain r2 s2 where i: "install_module mp skill (print DownloadingKnowledge s1) = (r2, s2)"
        by (cases "install_module mp skill (print DownloadingKnowledge s1)")
      have f2: "installed_modules s2 = installed_modules s"
        using install_module_frame [OF i] f1 by simp
      show ?thesis using assms v Inr True i f2
        by (cases r2) (auto simp: verify_and_install_def split: if_splits)
    qed
  qed
qed

lemma download_local_registry:
  assumes "download_local env skill s = (r, s')"
  shows "installed_modules s' =
           (if r = Inr True
            then AList.update skill \<lparr>path = skill @ ''.mkm'', installed_at = loop_time env\<rparr>
                   (installed_modules s)
            else installed_modules s)"
proof (cases "map_of (cwd s) (skill @ ''.mkm'') = None")
  case True
  then show ?thesis using assms by (auto simp: download_local_def)
next
  case False
  then have "verify_and_install env skill (skill @ ''.mkm'') s = (r, s')"
    using assms by (auto simp: download_local_def split: if_splits)
  then show ?thesis by (rule verify_and_install_registry)
qed

text \<open>
  Claim C6. Whatever \<^verbatim>\<open>download_skill\<close> returns or raises, the registry of installed
  modules is the one before the call, except when it returns \<^verbatim>\<open>True\<close>: then the one
  record of the skill is set.
\<close>

theorem C6_registry_unchanged_on_failure:
  assumes "download_skill env skill url s = (r, s')"
  shows "installed_modules s' =
           (if r = Inr True
            then AList.update skill \<lparr>path = skill @ ''.mkm'', installed_at = loop_time env\<rparr>
                   (installed_modules s)
            else installed_modules s)"
proof -
  have local: ?thesis if "download_local env skill (print (Searching skill) s) = (r, s')"
    using download_local_registry [OF that] by simp
  have remote: ?thesis
    if "verify_and_install env skill (skill @ ''.mkm'')
          (print (DownloadingFrom u) (print (Searching skill) s)) = (r, s')" for u
    using verify_and_install_registry [OF that] by simp
  show ?thesis
  proof (cases url)
    case None
    then show ?thesis using assms local by (simp add: download_skill_def)
  next
    case (Some u)
    show ?thesis
    proof (cases "u = []")
      case True
      then show ?thesis using assms Some local by (simp add: download_skill_def)
    next
      case False
      then show ?thesis using assms Some remote [of u]
        by (simp add: download_skill_def download_from_url_def)
    qed
  qed
qed

theorem C6_registry_unchanged_on_failure_witness:
  "download_skill example_platform ''x'' None
     \<lparr>cwd = [(''x.mkm'', File (True, Bytes ''junk''))], stdout = [],
      installed_modules = [(''y'', \<lparr>path = ''y.mkm'', installed_at = 1\<rparr>)]\<rparr>
   = (Inr False,
      \<lparr>cwd = [(''x.mkm'', File (True, Bytes ''junk'')), (''temp_x'', Dir [])],
       stdout = [Searching ''x'', VerifyingIntegrity, ModuleHash ''0123456789abcdef'',
                 DownloadingKnowledge, InstallationError ReadError, FailedToInstall ''x''],
       installed_modules = [(''y'', \<lparr>path = ''y.mkm'', installed_at = 1\<rparr>)]\<rparr>)
   \<and> installed_modules (snd (download_skill example_platform ''x'' None
     \<lparr>cwd = [(''x.mkm'', File (True, Bytes ''junk''))], stdout = [],
      installed_modules = [(''y'', \<lparr>path = ''y.mkm'', installed_at = 1\<rparr>)]\<rparr>))
     = [(''y'', \<lparr>path = ''y.mkm'', installed_at = 1\<rparr>)]"
proof -
  let ?s = "\<lparr>cwd = [(''x.mkm'', File (True, Bytes ''junk''))], stdout = [],
      installed_modules = [(''y'', \<lparr>path = ''y.mkm'', installed_at = 1\<rparr>)]\<rparr>"
  have ev: "download_skill example_platform ''x'' None ?s
   = (Inr False,
      \<lparr>cwd = [(''x.mkm'', File (True, Bytes ''junk'')), (''temp_x'', Dir [])],
       stdout = [Searching ''x'', VerifyingIntegrity, ModuleHash ''0123456789abcdef'',
                 DownloadingKnowledge, InstallationError ReadError, FailedToInstall ''x''],
       installed_modules = [(''y'', \<lparr>path = ''y.mkm'', installed_at = 1\<rparr>)]\<rparr>)"
    by (simp add: download_skill_def download_local_def verify_and_install_def
        verify_module_def calculate_hash_def open_rb_def print_def install_module_def
        mkdir_exist_ok_def install_module_try_def unpack_module_def extract_module_def
        example_platform_def)
  from C6_registry_unchanged_on_failure [OF ev] ev show ?thesis by simp
qed

subsection \<open>Integrity verification\<close>

text \<open>
  Claim C9. For an archive that exists and can be read, \<^verbatim>\<open>_verify_module\<close> computes the
  digest of its content (it prints the first 16 characters) and returns \<^verbatim>\<open>True\<close>; on no
  input at all does it return \<^verbatim>\<open>False\<close>, since the digest is compared with nothing.
\<close>

theorem C9_verification_always_succeeds:
  "(map_of (cwd s) p = Some (File (True, c)) \<longrightarrow>
      verify_module env p s = (Inr True, print (ModuleHash (take 16 (sha256 env c))) s))
   \<and> fst (verify_module env p s) \<noteq> Inr False"
  by (simp add: verify_module_def calculate_hash_def open_rb_def split: sum.splits)

theorem C9_verification_always_succeeds_witness:
  "map_of (cwd (example_state [])) ''x.mkm'' = Some (File (True, example_archive []))
   \<and> verify_module example_platform ''x.mkm'' (example_state []) =
       (Inr True, print (ModuleHash ''0123456789abcdef'') (example_state []))"
proof -
  have h: "map_of (cwd (example_state [])) ''x.mkm'' = Some (File (True, example_archive []))"
    by (simp add: example_state_def)
  have "verify_module example_platform ''x.mkm'' (example_state []) =
       (Inr True, print (ModuleHash (take 16 (sha256 example_platform (example_archive []))))
          (example_state []))"
    using C9_verification_always_succeeds [of "example_state []" "''x.mkm''" "example_archive []"
        example_platform] h by blast
  then show ?thesis using h by (simp add: example_platform_def)
qed

subsection \<open>The install steps\<close>

lemma install_module_steps:
  assumes mk: "mkdir_exist_ok (''temp_'' @ skill) s0 = (Inr (), sa)"
    and up: "unpack_module mp (''temp_'' @ skill) sa = (Inr steps, s)"
  shows "install_module mp skill s0 =
           (case install_steps steps (''temp_'' @ skill) s of
              (Inl e, s3) \<Rightarrow> (Inr False, print (InstallationError e) s3)
            | (Inr u, s3) \<Rightarrow> (Inr True, s3\<lparr>cwd := AList.delete (''temp_'' @ skill) (cwd s3)\<rparr>))"
proof -
  obtain r3 s3 where st: "install_steps steps (''temp_'' @ skill) s = (r3, s3)"
    by (cases "install_steps steps (''temp_'' @ skill) s")
  obtain es where "map_of (cwd s) (''temp_'' @ skill) = Some (Dir es)"
    using unpack_module_dir [OF up] by blast
  then have "map_of (cwd s3) (''temp_'' @ skill) = Some (Dir es)"
    using install_steps_frame [OF st] by simp
  then have rm: "rmtree (''temp_'' @ skill) s3 =
      (Inr (), s3\<lparr>cwd := AList.delete (''temp_'' @ skill) (cwd s3)\<rparr>)"
    by (rule rmtree_dir)
  show ?thesis
    using mk up st rm
    by (cases r3) (simp_all add: install_module_def install_module_try_def)
qed

lemma example_mkdir:
  "mkdir_exist_ok ''temp_x'' (example_state steps) = (Inr (), example_made steps)"
  by (simp add: example_made_def example_state_def mkdir_exist_ok_def)

lemma example_unpack:
  "unpack_module ''x.mkm'' ''temp_x'' (example_made steps) = (Inr steps, example_unpacked steps)"
  by (simp add: example_unpacked_def example_made_def example_state_def example_archive_def
      mkdir_exist_ok_def unpack_module_def extract_module_def open_rb_def load_json_def
      read_entry_def json_load_def print_metadata_def py_join_def print_def)

lemma example_unpacked_cwd:
  "cwd (example_unpacked steps) =
     [(''x.mkm'', File (True, example_archive steps)),
      (''temp_x'', Dir [(''manifest.json'', True, Json (PDict [(''install_steps'', PList steps)])),
                        (''metadata.json'', True,
                         Json (PDict [(''name'', PStr ''x''), (''description'', PStr ''demo''),
                                      (''skills_provided'', PList [PStr ''tool_x''])]))])]"
  by (simp add: example_unpacked_def example_made_def example_state_def example_archive_def
      mkdir_exist_ok_def unpack_module_def extract_module_def open_rb_def load_json_def
      read_entry_def json_load_def print_metadata_def py_join_def print_def)

lemma example_unpacked_stdout:
  "stdout (example_unpacked steps) =
     [InstallingModule (PStr ''x''), Description (PStr ''demo''), SkillsProvided ''tool_x'']"
  by (simp add: example_unpacked_def example_made_def example_state_def example_archive_def
      mkdir_exist_ok_def unpack_module_def extract_module_def open_rb_def load_json_def
      read_entry_def json_load_def print_metadata_def py_join_def print_def)





subsection \<open>Entities with missing keys\<close>

lemma extract_skills_loop_with_blanks:
  "extract_skills_loop (map with_blanks es) acc = extract_skills_loop es acc"
  by (induction es arbitrary: acc) (simp_all add: with_blanks_def get_or_def)



subsection \<open>Exceptions that leave the loader\<close>

text \<open>
  Claim C2. \<^verbatim>\<open>download_skill\<close> should return a failure value on every input. With a
  source URL and no file at \<^verbatim>\<open>x.mkm\<close>, and with a local \<^verbatim>\<open>x.mkm\<close> that cannot be read,
  \<^verbatim>\<open>_verify_module\<close> opens the file outside any handler and the exception leaves
  \<^verbatim>\<open>download_skill\<close>.
\<close>

theorem C2_missing_archive_raises:
  "download_skill example_platform ''x'' (Some ''http://host/x.mkm'')
     \<lparr>cwd = [], stdout = [], installed_modules = []\<rparr>
   = (Inl FileNotFoundError,
      \<lparr>cwd = [],
       stdout = [Searching ''x'', DownloadingFrom ''http://host/x.mkm'', VerifyingIntegrity],
       installed_modules = []\<rparr>)
   \<and> download_skill example_platform ''x'' None
     \<lparr>cwd = [(''x.mkm'', File (False, Bytes ''secret''))], stdout = [], installed_modules = []\<rparr>
   = (Inl PermissionError,
      \<lparr>cwd = [(''x.mkm'', File (False, Bytes ''secret''))],
       stdout = [Searching ''x'', VerifyingIntegrity],
       installed_modules = []\<rparr>)"
  by (simp add: download_skill_def download_local_def download_from_url_def
      verify_and_install_def verify_module_def calculate_hash_def open_rb_def print_def)

subsection \<open>The scratch directory\<close>

text \<open>
  Claim C1. The scratch directory should be gone when an install or package operation
  returns. Installing an archive without \<^verbatim>\<open>manifest.json\<close> returns \<^verbatim>\<open>False\<close> and leaves
  \<^verbatim>\<open>temp_k\<close> with the extracted file; packaging when \<^verbatim>\<open>m.mkm\<close> is a directory raises and
  leaves \<^verbatim>\<open>temp_m\<close>. \<^verbatim>\<open>shutil.rmtree\<close> is reached only on the path without an exception.
\<close>

theorem C1_scratch_directory_left_behind:
  "download_skill example_platform ''k'' None
     \<lparr>cwd = [(''k.mkm'', File (True, TarGz [(''metadata.json'', Json (PDict []))]))],
      stdout = [], installed_modules = []\<rparr>
   = (Inr False,
      \<lparr>cwd = [(''k.mkm'', File (True, TarGz [(''metadata.json'', Json (PDict []))])),
              (''temp_k'', Dir [(''metadata.json'', True, Json (PDict []))])],
       stdout = [Searching ''k'', VerifyingIntegrity, ModuleHash ''0123456789abcdef'',
                 DownloadingKnowledge, InstallationError FileNotFoundError,
                 FailedToInstall ''k''],
       installed_modules = []\<rparr>)
   \<and> fst (create_from_memory example_platform [] ''m'' ''demo''
            \<lparr>cwd = [(''m.mkm'', Dir [])], stdout = [], installed_modules = []\<rparr>)
     = Inl IsADirectoryError
   \<and> map fst (cwd (snd (create_from_memory example_platform [] ''m'' ''demo''
            \<lparr>cwd = [(''m.mkm'', Dir [])], stdout = [], installed_modules = []\<rparr>)))
     = [''m.mkm'', ''temp_m'']"
  by (simp add: download_skill_def download_local_def verify_and_install_def
      verify_module_def calculate_hash_def open_rb_def print_def install_module_def
      mkdir_exist_ok_def install_module_try_def unpack_module_def extract_module_def
      load_json_def read_entry_def json_load_def example_platform_def
      create_from_memory_def write_entry_def write_archive_def tarfile_open_w_def)

subsection \<open>The archive at its destination\<close>

lemma scratch_neq_archive: "''temp_'' @ m \<noteq> m @ ''.mkm''"
proof
  assume "''temp_'' @ m = m @ ''.mkm''"
  then have "length (''temp_'' @ m) = length (m @ ''.mkm'')" by (rule arg_cong)
  then show False by simp
qed

lemma list_all_update:
  "list_all P es \<Longrightarrow> P (k, v) \<Longrightarrow> list_all P (AList.update k v es)"
  by (induction es) auto

lemma list_all_map_of:
  "list_all P es \<Longrightarrow> map_of es k = Some v \<Longrightarrow> P (k, v)"
  by (induction es) (auto split: if_splits)

lemma tar_add_all_readable:
  "list_all (\<lambda>(n, r, c). r) files \<Longrightarrow>
     tar_add_all files ms = (None, ms @ map (\<lambda>(n, r, c). (n, c)) files)"
  by (induction files arbitrary: ms) auto

lemma replace_file_readable:
  assumes "list_all (\<lambda>(n, r, c). r) es"
  shows "list_all (\<lambda>(n, r, c). r) (replace_file f c es)"
proof -
  have "case map_of es f of None \<Rightarrow> True | Some (r, old) \<Rightarrow> r"
    using list_all_map_of [OF assms, of f] by (auto split: option.splits)
  then show ?thesis
    unfolding replace_file_def using assms by (intro list_all_update) auto
qed

lemma write_entry_exact:
  assumes "map_of (cwd s) d = Some (Dir es)" and "p \<noteq> d"
  shows "\<exists>s1. write_entry d f c s = (Inr (), s1)
           \<and> map_of (cwd s1) d = Some (Dir (replace_file f c es))
           \<and> map_of (cwd s1) p = map_of (cwd s) p"
  using assms by (simp add: write_entry_def replace_file_def update_conv')

lemma mkdir_exist_ok_exact:
  assumes "\<And>f. map_of (cwd s) d \<noteq> Some (File f)" and "p \<noteq> d"
  shows "\<exists>s1. mkdir_exist_ok d s = (Inr (), s1)
           \<and> map_of (cwd s1) d = Some (Dir (scratch_at_start d s))
           \<and> map_of (cwd s1) p = map_of (cwd s) p"
  using assms
  by (auto simp: mkdir_exist_ok_def scratch_at_start_def update_conv'
      split: option.splits node.splits)

lemma write_archive_exact:
  assumes d: "map_of (cwd s) d = Some (Dir es)" and a: "list_all (\<lambda>(n, r, c). r) es"
    and pd: "p \<noteq> d"
  shows "case map_of (cwd s) p of
           Some (Dir es') \<Rightarrow> write_archive d p s = (Inl IsADirectoryError, s)
         | Some (File (r, old)) \<Rightarrow>
             (\<exists>s1. write_archive d p s = (Inr (), s1)
                \<and> map_of (cwd s1) d = Some (Dir es)
                \<and> map_of (cwd s1) p = Some (File (r, TarGz (map (\<lambda>(n, r, c). (n, c)) es))))
         | None \<Rightarrow>
             (\<exists>s1. write_archive d p s = (Inr (), s1)
                \<and> map_of (cwd s1) d = Some (Dir es)
                \<and> map_of (cwd s1) p = Some (File (True, TarGz (map (\<lambda>(n, r, c). (n, c)) es))))"
  using d pd tar_add_all_readable [OF a, of "[]"]
  by (auto simp: write_archive_def tarfile_open_w_def iterdir_def update_conv'
      split: option.splits node.splits)

lemma calculate_hash_exact:
  assumes "map_of (cwd s) p = Some (File (r, c))"
  shows "calculate_hash env p s = (if r then Inr (sha256 env c) else Inl PermissionError)"
  using assms by (simp add: calculate_hash_def open_rb_def)




end
